theory Spec2Isabelle
  imports Main "HOL-Library.Word"
begin

unbundle bit_operations_syntax

section \<open>The ASPEED System Control Unit (hw/misc/aspeed_scu.c)\<close>

text \<open>
  A shallow embedding of the register emulation of the SCU: the register file, the
  three write handlers (AST2400, AST2500, AST2600), the two read handlers, the two
  reset functions and the derivation of the APB frequency.

  Conventions of the model.
  \<^item> A handler is called through its \<open>MemoryRegionOps\<close> on a region of
    \<open>SCU_IO_REGION_SIZE = 0x1000\<close> bytes (\<open>aspeed_scu_realize\<close>), with accesses of at
    most four bytes (\<open>valid.max_access_size = 4\<close> in all three \<open>ops\<close>). Its \<open>hwaddr
    offset\<close> is therefore a 12-bit word and its \<open>data\<close> a 32-bit word; on this domain
    the conversions \<open>int reg = TO_REG(offset)\<close> and \<open>uint32_t data = data64\<close> lose
    nothing, and \<open>reg\<close> is never negative.
  \<^item> \<open>qemu_log_mask(LOG_GUEST_ERROR, ...)\<close> is modelled by returning the list of
    diagnostics the call emits; \<open>trace_aspeed_scu_write\<close> is not modelled.
  \<^item> \<open>aspeed_scu_get_random()\<close> is modelled by a parameter \<open>rnd\<close>: the word the
    random source delivers to this read.
  \<^item> The handlers do not use their \<open>size\<close> argument (only the trace does); it is the
    parameter \<open>sz\<close>.
  \<^item> \<open>regs\<close> is the array \<open>uint32_t regs[ASPEED_AST2600_SCU_NR_REGS]\<close>, as a store
    from word index to word.
\<close>

type_synonym u32 = "32 word"
type_synonym u64 = "64 word"
type_synonym hwaddr = "12 word"

subsection \<open>Declarations of include/hw/misc/aspeed_scu.h\<close>

text \<open>
  The header is not among the sources. The constants and macros of it that the code
  uses are the fields of a record, and every function below takes the record as its
  first argument; the theorems hold for every value of it.
\<close>

record scu_header =
  ASPEED_SCU_NR_REGS :: nat
  ASPEED_AST2600_SCU_NR_REGS :: nat
  ASPEED_SCU_PROT_KEY :: u32
  AST2600_A1_SILICON_REV :: u32
  SCU_HW_STRAP_CLK_25M_IN :: u32
  SCU_HW_STRAP_CLK_48M_IN :: u32
  SCU_AST2400_H_PLL_OFF :: u32
  SCU_AST2400_H_PLL_PROGRAMMED :: u32
  SCU_AST2400_H_PLL_BYPASS_EN :: u32
  SCU_H_PLL_OFF :: u32
  SCU_H_PLL_BYPASS_EN :: u32
  SCU_CLK_GET_PCLK_DIV :: "u32 \<Rightarrow> u32"
  SCU_AST2400_HW_STRAP_GET_H_PLL_CLK :: "u32 \<Rightarrow> u32"

subsection \<open>Register indices\<close>

definition TO_REG :: "nat \<Rightarrow> nat" where
  "TO_REG offset = drop_bit 2 offset"

abbreviation "PROT_KEY \<equiv> TO_REG 0x00"
abbreviation "SYS_RST_CTRL \<equiv> TO_REG 0x04"
abbreviation "CLK_SEL \<equiv> TO_REG 0x08"
abbreviation "CLK_STOP_CTRL \<equiv> TO_REG 0x0C"
abbreviation "FREQ_CNTR_EVAL \<equiv> TO_REG 0x14"
abbreviation "D2PLL_PARAM \<equiv> TO_REG 0x1C"
abbreviation "MPLL_PARAM \<equiv> TO_REG 0x20"
abbreviation "HPLL_PARAM \<equiv> TO_REG 0x24"
abbreviation "MISC_CTRL1 \<equiv> TO_REG 0x2C"
abbreviation "PCI_CTRL1 \<equiv> TO_REG 0x30"
abbreviation "PCI_CTRL2 \<equiv> TO_REG 0x34"
abbreviation "PCI_CTRL3 \<equiv> TO_REG 0x38"
abbreviation "SYS_RST_STATUS \<equiv> TO_REG 0x3C"
abbreviation "SOC_SCRATCH1 \<equiv> TO_REG 0x40"
abbreviation "MISC_CTRL2 \<equiv> TO_REG 0x4C"
abbreviation "VGA_SCRATCH1 \<equiv> TO_REG 0x50"
abbreviation "VGA_SCRATCH8 \<equiv> TO_REG 0x6C"
abbreviation "HW_STRAP1 \<equiv> TO_REG 0x70"
abbreviation "RNG_CTRL \<equiv> TO_REG 0x74"
abbreviation "RNG_DATA \<equiv> TO_REG 0x78"
abbreviation "SILICON_REV \<equiv> TO_REG 0x7C"
abbreviation "PINMUX_CTRL2 \<equiv> TO_REG 0x84"
abbreviation "PINMUX_CTRL3 \<equiv> TO_REG 0x88"
abbreviation "PINMUX_CTRL4 \<equiv> TO_REG 0x8C"
abbreviation "PINMUX_CTRL5 \<equiv> TO_REG 0x90"
abbreviation "WDT_RST_CTRL \<equiv> TO_REG 0x9C"
abbreviation "PINMUX_CTRL8 \<equiv> TO_REG 0xA4"
abbreviation "PINMUX_CTRL9 \<equiv> TO_REG 0xA8"
abbreviation "WAKEUP_EN \<equiv> TO_REG 0xC0"
abbreviation "HW_STRAP2 \<equiv> TO_REG 0xD0"
abbreviation "FREE_CNTR4 \<equiv> TO_REG 0xE0"
abbreviation "FREE_CNTR4_EXT \<equiv> TO_REG 0xE4"
abbreviation "CPU2_BASE_SEG1 \<equiv> TO_REG 0x104"
abbreviation "CPU2_BASE_SEG4 \<equiv> TO_REG 0x110"
abbreviation "CPU2_BASE_SEG5 \<equiv> TO_REG 0x114"
abbreviation "CHIP_ID0 \<equiv> TO_REG 0x150"
abbreviation "CHIP_ID1 \<equiv> TO_REG 0x154"
abbreviation "UART_HPLL_CLK \<equiv> TO_REG 0x160"
abbreviation "PCIE_CTRL \<equiv> TO_REG 0x180"
abbreviation "BMC_DEV_ID \<equiv> TO_REG 0x1A4"

abbreviation "AST2600_PROT_KEY \<equiv> TO_REG 0x00"
abbreviation "AST2600_SILICON_REV \<equiv> TO_REG 0x04"
abbreviation "AST2600_SILICON_REV2 \<equiv> TO_REG 0x14"
abbreviation "AST2600_SYS_RST_CTRL \<equiv> TO_REG 0x40"
abbreviation "AST2600_SYS_RST_CTRL_CLR \<equiv> TO_REG 0x44"
abbreviation "AST2600_SYS_RST_CTRL2 \<equiv> TO_REG 0x50"
abbreviation "AST2600_SYS_RST_CTRL2_CLR \<equiv> TO_REG 0x54"
abbreviation "AST2600_CLK_STOP_CTRL \<equiv> TO_REG 0x80"
abbreviation "AST2600_CLK_STOP_CTRL_CLR \<equiv> TO_REG 0x84"
abbreviation "AST2600_CLK_STOP_CTRL2 \<equiv> TO_REG 0x90"
abbreviation "AST2600_CLK_STOP_CTRL2_CLR \<equiv> TO_REG 0x94"
abbreviation "AST2600_SDRAM_HANDSHAKE \<equiv> TO_REG 0x100"
abbreviation "AST2600_HPLL_PARAM \<equiv> TO_REG 0x200"
abbreviation "AST2600_HPLL_EXT \<equiv> TO_REG 0x204"
abbreviation "AST2600_MPLL_EXT \<equiv> TO_REG 0x224"
abbreviation "AST2600_EPLL_EXT \<equiv> TO_REG 0x244"
abbreviation "AST2600_HW_STRAP1 \<equiv> TO_REG 0x500"
abbreviation "AST2600_HW_STRAP1_CLR \<equiv> TO_REG 0x504"
abbreviation "AST2600_HW_STRAP1_PROT \<equiv> TO_REG 0x508"
abbreviation "AST2600_HW_STRAP2 \<equiv> TO_REG 0x510"
abbreviation "AST2600_HW_STRAP2_CLR \<equiv> TO_REG 0x514"
abbreviation "AST2600_HW_STRAP2_PROT \<equiv> TO_REG 0x518"
abbreviation "AST2600_RNG_DATA \<equiv> TO_REG 0x540"
abbreviation "AST2600_CHIP_ID0 \<equiv> TO_REG 0x5B0"
abbreviation "AST2600_CHIP_ID1 \<equiv> TO_REG 0x5B4"

subsection \<open>Reset tables\<close>

text \<open>
  A C array with designated initialisers: the listed indices hold their values, every
  other index holds 0. Where an index is listed twice the later initialiser wins.
\<close>

definition c_array :: "(nat \<times> u32) list \<Rightarrow> nat \<Rightarrow> u32" where
  "c_array inits i = (case map_of (rev inits) i of Some v \<Rightarrow> v | None \<Rightarrow> 0)"

definition ast2400_a0_resets :: "nat \<Rightarrow> u32" where
  "ast2400_a0_resets = c_array
    [(SYS_RST_CTRL, 0xFFCFFEDC),
     (CLK_SEL, 0xF3F40000),
     (CLK_STOP_CTRL, 0x19FC3E8B),
     (D2PLL_PARAM, 0x00026108),
     (MPLL_PARAM, 0x00030291),
     (HPLL_PARAM, 0x00000291),
     (MISC_CTRL1, 0x00000010),
     (PCI_CTRL1, 0x20001A03),
     (PCI_CTRL2, 0x20001A03),
     (PCI_CTRL3, 0x04000030),
     (SYS_RST_STATUS, 0x00000001),
     (SOC_SCRATCH1, 0x000000C0),
     (MISC_CTRL2, 0x00000023),
     (RNG_CTRL, 0x0000000E),
     (PINMUX_CTRL2, 0x0000F000),
     (PINMUX_CTRL3, 0x01000000),
     (PINMUX_CTRL4, 0x000000FF),
     (PINMUX_CTRL5, 0x0000A000),
     (WDT_RST_CTRL, 0x003FFFF3),
     (PINMUX_CTRL8, 0xFFFF0000),
     (PINMUX_CTRL9, 0x000FFFFF),
     (FREE_CNTR4, 0x000000FF),
     (FREE_CNTR4_EXT, 0x000000FF),
     (CPU2_BASE_SEG1, 0x80000000),
     (CPU2_BASE_SEG4, 0x1E600000),
     (CPU2_BASE_SEG5, 0xC0000000),
     (UART_HPLL_CLK, 0x00001903),
     (PCIE_CTRL, 0x0000007B),
     (BMC_DEV_ID, 0x00002402)]"

definition ast2500_a1_resets :: "nat \<Rightarrow> u32" where
  "ast2500_a1_resets = c_array
    [(SYS_RST_CTRL, 0xFFCFFEDC),
     (CLK_SEL, 0xF3F40000),
     (CLK_STOP_CTRL, 0x19FC3E8B),
     (D2PLL_PARAM, 0x00026108),
     (MPLL_PARAM, 0x00030291),
     (HPLL_PARAM, 0x93000400),
     (MISC_CTRL1, 0x00000010),
     (PCI_CTRL1, 0x20001A03),
     (PCI_CTRL2, 0x20001A03),
     (PCI_CTRL3, 0x04000030),
     (SYS_RST_STATUS, 0x00000001),
     (SOC_SCRATCH1, 0x000000C0),
     (MISC_CTRL2, 0x00000023),
     (RNG_CTRL, 0x0000000E),
     (PINMUX_CTRL2, 0x0000F000),
     (PINMUX_CTRL3, 0x03000000),
     (PINMUX_CTRL4, 0x00000000),
     (PINMUX_CTRL5, 0x0000A000),
     (WDT_RST_CTRL, 0x023FFFF3),
     (PINMUX_CTRL8, 0xFFFF0000),
     (PINMUX_CTRL9, 0x000FFFFF),
     (FREE_CNTR4, 0x000000FF),
     (FREE_CNTR4_EXT, 0x000000FF),
     (CPU2_BASE_SEG1, 0x80000000),
     (CPU2_BASE_SEG4, 0x1E600000),
     (CPU2_BASE_SEG5, 0xC0000000),
     (CHIP_ID0, 0x1234ABCD),
     (CHIP_ID1, 0x88884444),
     (UART_HPLL_CLK, 0x00001903),
     (PCIE_CTRL, 0x0000007B),
     (BMC_DEV_ID, 0x00002402)]"

definition ast2600_a1_resets :: "nat \<Rightarrow> u32" where
  "ast2600_a1_resets = c_array
    [(AST2600_SYS_RST_CTRL, 0xF7C3FED8),
     (AST2600_SYS_RST_CTRL2, 0xFFFFFFFC),
     (AST2600_CLK_STOP_CTRL, 0xFFFF7F8A),
     (AST2600_CLK_STOP_CTRL2, 0xFFF0FFF0),
     (AST2600_SDRAM_HANDSHAKE, 0x00000000),
     (AST2600_HPLL_PARAM, 0x1000405F),
     (AST2600_CHIP_ID0, 0x1234ABCD),
     (AST2600_CHIP_ID1, 0x88884444)]"

subsection \<open>Device state and diagnostics\<close>

record AspeedSCUState =
  regs :: "nat \<Rightarrow> u32"
  silicon_rev :: u32
  hw_strap1 :: u32
  hw_strap2 :: u32
  hw_prot_key :: u32

datatype guest_error =
    Out_of_bounds_read
  | Out_of_bounds_write
  | SCU_is_locked
  | Write_to_read_only
  | Read_of_write_only

subsection \<open>Reads\<close>

definition aspeed_scu_read ::
  "scu_header \<Rightarrow> u32 \<Rightarrow> AspeedSCUState \<Rightarrow> hwaddr \<Rightarrow> nat \<Rightarrow> u64 \<times> AspeedSCUState \<times> guest_error list" where
  "aspeed_scu_read h rnd s offset sz =
    (let reg = TO_REG (unat offset) in
     if reg \<ge> ASPEED_SCU_NR_REGS h then (0, s, [Out_of_bounds_read])
     else if reg = RNG_DATA then
       (let s' = s\<lparr>regs := (regs s)(RNG_DATA := rnd)\<rparr> in (ucast (regs s' reg), s', []))
     else if reg = WAKEUP_EN then (ucast (regs s reg), s, [Read_of_write_only])
     else (ucast (regs s reg), s, []))"

definition aspeed_ast2600_scu_read ::
  "scu_header \<Rightarrow> u32 \<Rightarrow> AspeedSCUState \<Rightarrow> hwaddr \<Rightarrow> nat \<Rightarrow> u64 \<times> AspeedSCUState \<times> guest_error list" where
  "aspeed_ast2600_scu_read h rnd s offset sz =
    (let reg = TO_REG (unat offset) in
     if reg \<ge> ASPEED_AST2600_SCU_NR_REGS h then (0, s, [Out_of_bounds_read])
     else if reg = AST2600_HPLL_EXT \<or> reg = AST2600_EPLL_EXT \<or> reg = AST2600_MPLL_EXT then
       (ucast (regs s reg OR push_bit 31 1), s, [])
     else if reg = AST2600_RNG_DATA then
       (let s' = s\<lparr>regs := (regs s)(AST2600_RNG_DATA := rnd)\<rparr> in (ucast (regs s' reg), s', []))
     else (ucast (regs s reg), s, []))"

subsection \<open>Writes\<close>

definition aspeed_ast2400_scu_write ::
  "scu_header \<Rightarrow> AspeedSCUState \<Rightarrow> hwaddr \<Rightarrow> u32 \<Rightarrow> nat \<Rightarrow> AspeedSCUState \<times> guest_error list" where
  "aspeed_ast2400_scu_write h s offset data sz =
    (let reg = TO_REG (unat offset) in
     if reg \<ge> ASPEED_SCU_NR_REGS h then (s, [Out_of_bounds_write])
     else
       let log = (if reg > PROT_KEY \<and> reg < CPU2_BASE_SEG1 \<and> regs s PROT_KEY = 0
                  then [SCU_is_locked] else [])
       in
         if reg = PROT_KEY then
           (s\<lparr>regs := (regs s)(reg := (if data = ASPEED_SCU_PROT_KEY h then 1 else 0))\<rparr>, log)
         else if reg = SILICON_REV \<or> reg = FREQ_CNTR_EVAL
               \<or> (VGA_SCRATCH1 \<le> reg \<and> reg \<le> VGA_SCRATCH8)
               \<or> reg = RNG_DATA \<or> reg = FREE_CNTR4 \<or> reg = FREE_CNTR4_EXT then
           (s, log @ [Write_to_read_only])
         else (s\<lparr>regs := (regs s)(reg := data)\<rparr>, log))"

definition aspeed_ast2500_scu_write ::
  "scu_header \<Rightarrow> AspeedSCUState \<Rightarrow> hwaddr \<Rightarrow> u32 \<Rightarrow> nat \<Rightarrow> AspeedSCUState \<times> guest_error list" where
  "aspeed_ast2500_scu_write h s offset data sz =
    (let reg = TO_REG (unat offset) in
     if reg \<ge> ASPEED_SCU_NR_REGS h then (s, [Out_of_bounds_write])
     else
       let log = (if reg > PROT_KEY \<and> reg < CPU2_BASE_SEG1 \<and> regs s PROT_KEY = 0
                  then [SCU_is_locked] else [])
       in
         if reg = PROT_KEY then
           (s\<lparr>regs := (regs s)(reg := (if data = ASPEED_SCU_PROT_KEY h then 1 else 0))\<rparr>, log)
         else if reg = HW_STRAP1 then
           (s\<lparr>regs := (regs s)(HW_STRAP1 := regs s HW_STRAP1 OR data)\<rparr>, log)
         else if reg = SILICON_REV then
           (s\<lparr>regs := (regs s)(HW_STRAP1 := regs s HW_STRAP1 AND NOT data)\<rparr>, log)
         else if reg = FREQ_CNTR_EVAL
               \<or> (VGA_SCRATCH1 \<le> reg \<and> reg \<le> VGA_SCRATCH8)
               \<or> reg = RNG_DATA \<or> reg = FREE_CNTR4 \<or> reg = FREE_CNTR4_EXT
               \<or> reg = CHIP_ID0 \<or> reg = CHIP_ID1 then
           (s, log @ [Write_to_read_only])
         else (s\<lparr>regs := (regs s)(reg := data)\<rparr>, log))"

definition aspeed_ast2600_scu_write ::
  "scu_header \<Rightarrow> AspeedSCUState \<Rightarrow> hwaddr \<Rightarrow> u32 \<Rightarrow> nat \<Rightarrow> AspeedSCUState \<times> guest_error list" where
  "aspeed_ast2600_scu_write h s offset data sz =
    (let reg = TO_REG (unat offset) in
     if reg \<ge> ASPEED_AST2600_SCU_NR_REGS h then (s, [Out_of_bounds_write])
     else
       let log = (if reg > PROT_KEY \<and> regs s PROT_KEY = 0 then [SCU_is_locked] else [])
       in
         if reg = AST2600_PROT_KEY then
           (s\<lparr>regs := (regs s)(reg := (if data = ASPEED_SCU_PROT_KEY h then 1 else 0))\<rparr>, log)
         else if (reg = AST2600_HW_STRAP1 \<or> reg = AST2600_HW_STRAP2) \<and> regs s (reg + 2) \<noteq> 0 then
           (s, log)
         else if reg = AST2600_HW_STRAP1 \<or> reg = AST2600_HW_STRAP2
               \<or> reg = AST2600_SYS_RST_CTRL \<or> reg = AST2600_SYS_RST_CTRL2
               \<or> reg = AST2600_CLK_STOP_CTRL \<or> reg = AST2600_CLK_STOP_CTRL2 then
           (s\<lparr>regs := (regs s)(reg := regs s reg OR data)\<rparr>, log)
         else if reg = AST2600_SYS_RST_CTRL_CLR \<or> reg = AST2600_SYS_RST_CTRL2_CLR
               \<or> reg = AST2600_CLK_STOP_CTRL_CLR \<or> reg = AST2600_CLK_STOP_CTRL2_CLR
               \<or> reg = AST2600_HW_STRAP1_CLR \<or> reg = AST2600_HW_STRAP2_CLR then
           (s\<lparr>regs := (regs s)(reg - 1 := regs s (reg - 1) AND NOT data)\<rparr>, log)
         else if reg = AST2600_RNG_DATA \<or> reg = AST2600_SILICON_REV
               \<or> reg = AST2600_SILICON_REV2 \<or> reg = AST2600_CHIP_ID0
               \<or> reg = AST2600_CHIP_ID1 then
           (s, log @ [Write_to_read_only])
         else (s\<lparr>regs := (regs s)(reg := data)\<rparr>, log))"

subsection \<open>Clock frequencies\<close>

definition aspeed_scu_get_clkin :: "scu_header \<Rightarrow> AspeedSCUState \<Rightarrow> u32" where
  "aspeed_scu_get_clkin h s =
    (if hw_strap1 s AND SCU_HW_STRAP_CLK_25M_IN h \<noteq> 0 then 25000000
     else if hw_strap1 s AND SCU_HW_STRAP_CLK_48M_IN h \<noteq> 0 then 48000000
     else 24000000)"

text \<open>
  The strapped frequencies of the AST2400 in MHz; the first row is for a 24 MHz or
  48 MHz input clock, the second for 25 MHz. The table has four columns: a column
  index of four or more reads outside the array, which is \<open>None\<close> here.
\<close>

definition hpll_ast2400_freqs :: "u32 list list" where
  "hpll_ast2400_freqs = [[384, 360, 336, 408], [400, 375, 350, 425]]"

definition aspeed_2400_scu_calc_hpll ::
  "scu_header \<Rightarrow> AspeedSCUState \<Rightarrow> u32 \<Rightarrow> u32 option" where
  "aspeed_2400_scu_calc_hpll h s hpll_reg =
    (let clkin = aspeed_scu_get_clkin h s in
     if hpll_reg AND SCU_AST2400_H_PLL_OFF h \<noteq> 0 then Some 0
     else if hpll_reg AND SCU_AST2400_H_PLL_PROGRAMMED h \<noteq> 0 then
       (let multiplier =
          (if \<not> (hpll_reg AND SCU_AST2400_H_PLL_BYPASS_EN h \<noteq> 0) then
             (let n = drop_bit 5 hpll_reg AND 0x3f;
                  od = drop_bit 4 hpll_reg AND 0x1;
                  d = hpll_reg AND 0xf
              in (2 - od) * ((n + 2) div (d + 1)))
           else 1)
        in Some (clkin * multiplier))
     else
       (let clk_25m_in = (if hw_strap1 s AND SCU_HW_STRAP_CLK_25M_IN h \<noteq> 0 then 1 else 0 :: nat);
            freq_select = (ucast (SCU_AST2400_HW_STRAP_GET_H_PLL_CLK h (hw_strap1 s)) :: 8 word)
        in if unat freq_select < 4
           then Some (hpll_ast2400_freqs ! clk_25m_in ! unat freq_select * 1000000)
           else None))"

definition aspeed_2500_scu_calc_hpll ::
  "scu_header \<Rightarrow> AspeedSCUState \<Rightarrow> u32 \<Rightarrow> u32 option" where
  "aspeed_2500_scu_calc_hpll h s hpll_reg =
    (let clkin = aspeed_scu_get_clkin h s in
     if hpll_reg AND SCU_H_PLL_OFF h \<noteq> 0 then Some 0
     else
       (let multiplier =
          (if \<not> (hpll_reg AND SCU_H_PLL_BYPASS_EN h \<noteq> 0) then
             (let p = drop_bit 13 hpll_reg AND 0x3f;
                  m = drop_bit 5 hpll_reg AND 0xff;
                  n = hpll_reg AND 0x1f
              in ((m + 1) div (n + 1)) div (p + 1))
           else 1)
        in Some (clkin * multiplier)))"

subsection \<open>Reset\<close>

text \<open>
  \<open>memcpy(s->regs, asc->resets, asc->nr_regs * 4)\<close> overwrites the first \<open>nr_regs\<close>
  words of the array and leaves the rest; the two functions take \<open>asc->resets\<close> and
  \<open>asc->nr_regs\<close> as arguments.
\<close>

definition memcpy_regs :: "(nat \<Rightarrow> u32) \<Rightarrow> (nat \<Rightarrow> u32) \<Rightarrow> nat \<Rightarrow> nat \<Rightarrow> u32" where
  "memcpy_regs dst src n = (\<lambda>i. if i < n then src i else dst i)"

definition aspeed_scu_reset ::
  "(nat \<Rightarrow> u32) \<Rightarrow> nat \<Rightarrow> AspeedSCUState \<Rightarrow> AspeedSCUState" where
  "aspeed_scu_reset asc_resets asc_nr_regs s =
    (let s1 = s\<lparr>regs := memcpy_regs (regs s) asc_resets asc_nr_regs\<rparr>;
         s2 = s1\<lparr>regs := (regs s1)(SILICON_REV := silicon_rev s1)\<rparr>;
         s3 = s2\<lparr>regs := (regs s2)(HW_STRAP1 := hw_strap1 s2)\<rparr>;
         s4 = s3\<lparr>regs := (regs s3)(HW_STRAP2 := hw_strap2 s3)\<rparr>
     in s4\<lparr>regs := (regs s4)(PROT_KEY := hw_prot_key s4)\<rparr>)"

definition aspeed_ast2600_scu_reset ::
  "scu_header \<Rightarrow> (nat \<Rightarrow> u32) \<Rightarrow> nat \<Rightarrow> AspeedSCUState \<Rightarrow> AspeedSCUState" where
  "aspeed_ast2600_scu_reset h asc_resets asc_nr_regs s =
    (let s1 = s\<lparr>regs := memcpy_regs (regs s) asc_resets asc_nr_regs\<rparr>;
         s2 = s1\<lparr>regs := (regs s1)(AST2600_SILICON_REV := AST2600_A1_SILICON_REV h)\<rparr>;
         s3 = s2\<lparr>regs := (regs s2)(AST2600_SILICON_REV2 := silicon_rev s2)\<rparr>;
         s4 = s3\<lparr>regs := (regs s3)(AST2600_HW_STRAP1 := hw_strap1 s3)\<rparr>;
         s5 = s4\<lparr>regs := (regs s4)(AST2600_HW_STRAP2 := hw_strap2 s4)\<rparr>
     in s5\<lparr>regs := (regs s5)(PROT_KEY := hw_prot_key s5)\<rparr>)"

subsection \<open>The three device classes\<close>

text \<open>
  \<open>AspeedSCUClass\<close> with the members the three \<open>class_init\<close> functions set: the reset
  table, the HPLL formula, the APB divider, the register count, the two handlers of
  \<open>ops\<close> and the \<open>reset\<close> method of the device class.
\<close>

record AspeedSCUClass =
  resets :: "nat \<Rightarrow> u32"
  calc_hpll :: "AspeedSCUState \<Rightarrow> u32 \<Rightarrow> u32 option"
  apb_divider :: u32
  nr_regs :: nat
  ops_read :: "u32 \<Rightarrow> AspeedSCUState \<Rightarrow> hwaddr \<Rightarrow> nat \<Rightarrow> u64 \<times> AspeedSCUState \<times> guest_error list"
  ops_write :: "AspeedSCUState \<Rightarrow> hwaddr \<Rightarrow> u32 \<Rightarrow> nat \<Rightarrow> AspeedSCUState \<times> guest_error list"
  dc_reset :: "AspeedSCUState \<Rightarrow> AspeedSCUState"

definition aspeed_2400_scu_class :: "scu_header \<Rightarrow> AspeedSCUClass" where
  "aspeed_2400_scu_class h =
    \<lparr>resets = ast2400_a0_resets,
     calc_hpll = aspeed_2400_scu_calc_hpll h,
     apb_divider = 2,
     nr_regs = ASPEED_SCU_NR_REGS h,
     ops_read = aspeed_scu_read h,
     ops_write = aspeed_ast2400_scu_write h,
     dc_reset = aspeed_scu_reset ast2400_a0_resets (ASPEED_SCU_NR_REGS h)\<rparr>"

definition aspeed_2500_scu_class :: "scu_header \<Rightarrow> AspeedSCUClass" where
  "aspeed_2500_scu_class h =
    \<lparr>resets = ast2500_a1_resets,
     calc_hpll = aspeed_2500_scu_calc_hpll h,
     apb_divider = 4,
     nr_regs = ASPEED_SCU_NR_REGS h,
     ops_read = aspeed_scu_read h,
     ops_write = aspeed_ast2500_scu_write h,
     dc_reset = aspeed_scu_reset ast2500_a1_resets (ASPEED_SCU_NR_REGS h)\<rparr>"

definition aspeed_2600_scu_class :: "scu_header \<Rightarrow> AspeedSCUClass" where
  "aspeed_2600_scu_class h =
    \<lparr>resets = ast2600_a1_resets,
     calc_hpll = aspeed_2500_scu_calc_hpll h,
     apb_divider = 4,
     nr_regs = ASPEED_AST2600_SCU_NR_REGS h,
     ops_read = aspeed_ast2600_scu_read h,
     ops_write = aspeed_ast2600_scu_write h,
     dc_reset = aspeed_ast2600_scu_reset h ast2600_a1_resets (ASPEED_AST2600_SCU_NR_REGS h)\<rparr>"

text \<open>
  \<open>aspeed_scu_get_apb_freq\<close>. The two divisions are unsigned 32-bit divisions; a
  zero divisor (which the macro \<open>SCU_CLK_GET_PCLK_DIV\<close> of the header would have to
  produce as \<open>0xFFFFFFFF\<close>) is \<open>None\<close>, as is a read outside the frequency table.
\<close>

definition aspeed_scu_get_apb_freq ::
  "scu_header \<Rightarrow> AspeedSCUClass \<Rightarrow> AspeedSCUState \<Rightarrow> u32 option" where
  "aspeed_scu_get_apb_freq h asc s =
    (case calc_hpll asc s (regs s HPLL_PARAM) of
       None \<Rightarrow> None
     | Some hpll \<Rightarrow>
         (let pclk = SCU_CLK_GET_PCLK_DIV h (regs s CLK_SEL) + 1 in
          if pclk = 0 \<or> apb_divider asc = 0 then None
          else Some (hpll div pclk div apb_divider asc)))"

subsection \<open>Reachable device states\<close>

text \<open>
  A device is constructed with zeroed registers and its four properties set; from then
  on its state changes by the \<open>reset\<close> method of its class and by the reads and writes
  the bus dispatches to the handlers of its class.
\<close>

inductive scu_reachable :: "AspeedSCUClass \<Rightarrow> AspeedSCUState \<Rightarrow> bool"
  for asc :: AspeedSCUClass where
  constructed: "regs s = (\<lambda>i. 0) \<Longrightarrow> scu_reachable asc s"
| after_reset: "scu_reachable asc s \<Longrightarrow> scu_reachable asc (dc_reset asc s)"
| after_read: "scu_reachable asc s \<Longrightarrow> ops_read asc rnd s offset sz = (v, s', log)
    \<Longrightarrow> scu_reachable asc s'"
| after_write: "scu_reachable asc s \<Longrightarrow> ops_write asc s offset data sz = (s', log)
    \<Longrightarrow> scu_reachable asc s'"

subsection \<open>A header for evaluating the model\<close>

text \<open>
  The values of the upstream header, used only where a theorem is instantiated at a
  concrete input.
\<close>

definition sample_header :: scu_header where
  "sample_header =
    \<lparr>ASPEED_SCU_NR_REGS = drop_bit 2 0x1A8,
     ASPEED_AST2600_SCU_NR_REGS = drop_bit 2 0xE20,
     ASPEED_SCU_PROT_KEY = 0x1688A8A8,
     AST2600_A1_SILICON_REV = 0x05010303,
     SCU_HW_STRAP_CLK_25M_IN = push_bit 23 1,
     SCU_HW_STRAP_CLK_48M_IN = push_bit 18 1,
     SCU_AST2400_H_PLL_OFF = push_bit 16 1,
     SCU_AST2400_H_PLL_PROGRAMMED = push_bit 18 1,
     SCU_AST2400_H_PLL_BYPASS_EN = push_bit 17 1,
     SCU_H_PLL_OFF = push_bit 19 1,
     SCU_H_PLL_BYPASS_EN = push_bit 20 1,
     SCU_CLK_GET_PCLK_DIV = (\<lambda>x. drop_bit 23 x AND 0x7),
     SCU_AST2400_HW_STRAP_GET_H_PLL_CLK = (\<lambda>x. drop_bit 8 x AND 0x3)\<rparr>"

definition zeroed :: "u32 \<Rightarrow> AspeedSCUState" where
  "zeroed key = \<lparr>regs = (\<lambda>i. 0), silicon_rev = 0x05010303, hw_strap1 = 0,
    hw_strap2 = 0, hw_prot_key = key\<rparr>"

subsection \<open>The values of the protection-key register\<close>

text \<open>
  The predicate that every reachable state satisfies: the protection-key register
  holds 0, 1 or the word that was configured as \<open>hw-prot-key\<close>.
\<close>

definition key_inv :: "AspeedSCUState \<Rightarrow> bool" where
  "key_inv s = (regs s PROT_KEY = 0 \<or> regs s PROT_KEY = 1 \<or> regs s PROT_KEY = hw_prot_key s)"

section \<open>Properties\<close>

subsection \<open>Auxiliary facts\<close>

lemma TO_REG_div: "TO_REG n = n div 4"
  by (simp add: TO_REG_def drop_bit_eq_div)

lemmas write_defs = aspeed_ast2400_scu_write_def aspeed_ast2500_scu_write_def
  aspeed_ast2600_scu_write_def

lemmas read_defs = aspeed_scu_read_def aspeed_ast2600_scu_read_def

lemmas class_defs = aspeed_2400_scu_class_def aspeed_2500_scu_class_def
  aspeed_2600_scu_class_def

lemmas reset_defs = aspeed_scu_reset_def aspeed_ast2600_scu_reset_def memcpy_regs_def

lemmas table_defs = ast2400_a0_resets_def ast2500_a1_resets_def ast2600_a1_resets_def
  c_array_def

text \<open>The two readings of a table built from designated initialisers.\<close>

lemma c_array_absent: "i \<notin> fst ` set inits \<Longrightarrow> c_array inits i = 0"
  by (simp add: c_array_def map_of_eq_None_iff [THEN iffD2])

lemma c_array_listed:
  "distinct (map fst inits) \<Longrightarrow> (i, v) \<in> set inits \<Longrightarrow> c_array inits i = v"
  by (simp add: c_array_def rev_map [symmetric])

lemma sample_header_simps:
  "ASPEED_SCU_NR_REGS sample_header = 106"
  "ASPEED_AST2600_SCU_NR_REGS sample_header = 904"
  "ASPEED_SCU_PROT_KEY sample_header = 0x1688A8A8"
  "AST2600_A1_SILICON_REV sample_header = 0x05010303"
  "SCU_HW_STRAP_CLK_25M_IN sample_header = 0x800000"
  "SCU_HW_STRAP_CLK_48M_IN sample_header = 0x40000"
  "SCU_AST2400_H_PLL_OFF sample_header = 0x10000"
  "SCU_AST2400_H_PLL_PROGRAMMED sample_header = 0x40000"
  "SCU_AST2400_H_PLL_BYPASS_EN sample_header = 0x20000"
  "SCU_H_PLL_OFF sample_header = 0x80000"
  "SCU_H_PLL_BYPASS_EN sample_header = 0x100000"
  "SCU_CLK_GET_PCLK_DIV sample_header 0 = 0"
  by (simp_all add: sample_header_def drop_bit_eq_div)

lemma or_and_not_absorb: "(x OR v) AND NOT v = x AND NOT (v :: u32)"
  by (rule bit_eqI) (auto simp: bit_and_iff bit_or_iff bit_not_iff)

lemma and_not_1_bits:
  "\<not> bit (x AND NOT 1 :: u32) 0" "0 < n \<Longrightarrow> bit (x AND NOT 1 :: u32) n = bit x n"
  by (auto simp: bit_and_iff bit_not_iff bit_1_iff dest: bit_imp_le_length)

subsection \<open>Writes to the protection-key register\<close>

text \<open>
  C4. On all three revisions a write whose offset maps to the protection-key register
  (word index 0) stores 1 when the written word is the magic constant
  \<open>ASPEED_SCU_PROT_KEY\<close> and 0 otherwise. The new register file is the old one
  updated at index 0 only, so the written word itself is not stored and no other
  register changes; the write emits no diagnostic. The premise on the register count
  says that index 0 exists.
\<close>

theorem prot_key_write:
  "TO_REG (unat offset) = PROT_KEY \<Longrightarrow>
   (PROT_KEY < ASPEED_SCU_NR_REGS h \<longrightarrow>
      aspeed_ast2400_scu_write h s offset data sz =
        (s\<lparr>regs := (regs s)(PROT_KEY := (if data = ASPEED_SCU_PROT_KEY h then 1 else 0))\<rparr>, [])
    \<and> aspeed_ast2500_scu_write h s offset data sz =
        (s\<lparr>regs := (regs s)(PROT_KEY := (if data = ASPEED_SCU_PROT_KEY h then 1 else 0))\<rparr>, []))
   \<and> (AST2600_PROT_KEY < ASPEED_AST2600_SCU_NR_REGS h \<longrightarrow>
      aspeed_ast2600_scu_write h s offset data sz =
        (s\<lparr>regs := (regs s)(AST2600_PROT_KEY := (if data = ASPEED_SCU_PROT_KEY h then 1 else 0))\<rparr>, []))"
  by (simp add: write_defs TO_REG_div Let_def)

theorem prot_key_write_witness:
  "regs (fst (aspeed_ast2400_scu_write sample_header (zeroed 0) 0 0x1688A8A8 4)) PROT_KEY = 1
   \<and> regs (fst (aspeed_ast2500_scu_write sample_header (zeroed 0) 0 0x1688A8A8 4)) PROT_KEY = 1
   \<and> regs (fst (aspeed_ast2600_scu_write sample_header (zeroed 0) 0 0x1688A8A7 4)) PROT_KEY = 0"
  using prot_key_write [of 0 sample_header "zeroed 0" "0x1688A8A8" 4]
    prot_key_write [of 0 sample_header "zeroed 0" "0x1688A8A7" 4]
  by (simp add: TO_REG_div sample_header_def)

subsection \<open>Accesses beyond the register count\<close>

text \<open>
  C10. When the word index \<open>offset / 4\<close> is at or beyond the register count of the
  revision (\<open>ASPEED_SCU_NR_REGS\<close> for the AST2400 and AST2500,
  \<open>ASPEED_AST2600_SCU_NR_REGS\<close> for the AST2600), a read returns 0 and the state it
  was given, and a write returns the state it was given. Both only emit the
  out-of-bounds diagnostic; the result is an ordinary value, not an error.
\<close>

theorem out_of_bounds_access:
  "(ASPEED_SCU_NR_REGS h \<le> unat offset div 4 \<longrightarrow>
      aspeed_scu_read h rnd s offset sz = (0, s, [Out_of_bounds_read])
    \<and> aspeed_ast2400_scu_write h s offset data sz = (s, [Out_of_bounds_write])
    \<and> aspeed_ast2500_scu_write h s offset data sz = (s, [Out_of_bounds_write]))
   \<and> (ASPEED_AST2600_SCU_NR_REGS h \<le> unat offset div 4 \<longrightarrow>
      aspeed_ast2600_scu_read h rnd s offset sz = (0, s, [Out_of_bounds_read])
    \<and> aspeed_ast2600_scu_write h s offset data sz = (s, [Out_of_bounds_write]))"
  by (simp add: write_defs read_defs TO_REG_div Let_def)

theorem out_of_bounds_access_witness:
  "aspeed_scu_read sample_header 7 (zeroed 1) 0x1A8 4 = (0, zeroed 1, [Out_of_bounds_read])
   \<and> aspeed_ast2400_scu_write sample_header (zeroed 1) 0x1A8 9 4 = (zeroed 1, [Out_of_bounds_write])
   \<and> aspeed_ast2500_scu_write sample_header (zeroed 1) 0x1A8 9 4 = (zeroed 1, [Out_of_bounds_write])
   \<and> aspeed_ast2600_scu_read sample_header 7 (zeroed 1) 0xE20 4 = (0, zeroed 1, [Out_of_bounds_read])
   \<and> aspeed_ast2600_scu_write sample_header (zeroed 1) 0xE20 9 4 = (zeroed 1, [Out_of_bounds_write])"
  using out_of_bounds_access [of sample_header "0x1A8" 7 "zeroed 1" 4 9]
    out_of_bounds_access [of sample_header "0xE20" 7 "zeroed 1" 4 9]
  by (simp add: sample_header_def drop_bit_eq_div)

subsection \<open>Reset\<close>

lemma aspeed_scu_reset_regs:
  "regs (aspeed_scu_reset tab n s) =
    (\<lambda>i. if i = PROT_KEY then hw_prot_key s
         else if i = HW_STRAP2 then hw_strap2 s
         else if i = HW_STRAP1 then hw_strap1 s
         else if i = SILICON_REV then silicon_rev s
         else if i < n then tab i else regs s i)"
  by (rule ext) (simp add: reset_defs Let_def TO_REG_div)

lemma aspeed_ast2600_scu_reset_regs:
  "regs (aspeed_ast2600_scu_reset h tab n s) =
    (\<lambda>i. if i = PROT_KEY then hw_prot_key s
         else if i = AST2600_HW_STRAP2 then hw_strap2 s
         else if i = AST2600_HW_STRAP1 then hw_strap1 s
         else if i = AST2600_SILICON_REV2 then silicon_rev s
         else if i = AST2600_SILICON_REV then AST2600_A1_SILICON_REV h
         else if i < n then tab i else regs s i)"
  by (rule ext) (simp add: reset_defs Let_def TO_REG_div)

lemma aspeed_scu_reset_props:
  "silicon_rev (aspeed_scu_reset tab n s) = silicon_rev s"
  "hw_strap1 (aspeed_scu_reset tab n s) = hw_strap1 s"
  "hw_strap2 (aspeed_scu_reset tab n s) = hw_strap2 s"
  "hw_prot_key (aspeed_scu_reset tab n s) = hw_prot_key s"
  by (simp_all add: reset_defs Let_def)

lemma aspeed_ast2600_scu_reset_props:
  "silicon_rev (aspeed_ast2600_scu_reset h tab n s) = silicon_rev s"
  "hw_strap1 (aspeed_ast2600_scu_reset h tab n s) = hw_strap1 s"
  "hw_strap2 (aspeed_ast2600_scu_reset h tab n s) = hw_strap2 s"
  "hw_prot_key (aspeed_ast2600_scu_reset h tab n s) = hw_prot_key s"
  by (simp_all add: reset_defs Let_def)

lemma aspeed_scu_reset_idem:
  "aspeed_scu_reset tab n (aspeed_scu_reset tab n s) = aspeed_scu_reset tab n s"
proof -
  have "regs (aspeed_scu_reset tab n (aspeed_scu_reset tab n s)) =
      regs (aspeed_scu_reset tab n s)"
    by (rule ext) (simp add: aspeed_scu_reset_regs aspeed_scu_reset_props)
  then show ?thesis
    by (simp add: aspeed_scu_reset_def Let_def)
qed

lemma aspeed_ast2600_scu_reset_idem:
  "aspeed_ast2600_scu_reset h tab n (aspeed_ast2600_scu_reset h tab n s) =
    aspeed_ast2600_scu_reset h tab n s"
proof -
  have "regs (aspeed_ast2600_scu_reset h tab n (aspeed_ast2600_scu_reset h tab n s)) =
      regs (aspeed_ast2600_scu_reset h tab n s)"
    by (rule ext) (simp add: aspeed_ast2600_scu_reset_regs aspeed_ast2600_scu_reset_props)
  then show ?thesis
    by (simp add: aspeed_ast2600_scu_reset_def Let_def)
qed

text \<open>
  C3. After the \<open>reset\<close> method of a class, whatever the state before, every register
  index below the register count of the class holds the value of the class's reset
  table (which is 0 where the table lists nothing, see \<open>c_array_absent\<close>), except the
  seeded registers: on the AST2400 and AST2500 the silicon-revision register holds
  the configured \<open>silicon_rev\<close>; on the AST2600 the primary revision register holds the
  fixed \<open>AST2600_A1_SILICON_REV\<close> and the second revision register the configured
  \<open>silicon_rev\<close>; on all three the two strap registers hold \<open>hw_strap1\<close> and
  \<open>hw_strap2\<close> and the protection-key register holds \<open>hw_prot_key\<close>. Resetting twice
  is the same as resetting once.
\<close>

theorem reset_register_file:
  "(i < nr_regs (aspeed_2400_scu_class h) \<longrightarrow>
      regs (dc_reset (aspeed_2400_scu_class h) s) i =
        (if i = SILICON_REV then silicon_rev s
         else if i = HW_STRAP1 then hw_strap1 s
         else if i = HW_STRAP2 then hw_strap2 s
         else if i = PROT_KEY then hw_prot_key s
         else resets (aspeed_2400_scu_class h) i))
   \<and> (i < nr_regs (aspeed_2500_scu_class h) \<longrightarrow>
      regs (dc_reset (aspeed_2500_scu_class h) s) i =
        (if i = SILICON_REV then silicon_rev s
         else if i = HW_STRAP1 then hw_strap1 s
         else if i = HW_STRAP2 then hw_strap2 s
         else if i = PROT_KEY then hw_prot_key s
         else resets (aspeed_2500_scu_class h) i))
   \<and> (i < nr_regs (aspeed_2600_scu_class h) \<longrightarrow>
      regs (dc_reset (aspeed_2600_scu_class h) s) i =
        (if i = AST2600_SILICON_REV then AST2600_A1_SILICON_REV h
         else if i = AST2600_SILICON_REV2 then silicon_rev s
         else if i = AST2600_HW_STRAP1 then hw_strap1 s
         else if i = AST2600_HW_STRAP2 then hw_strap2 s
         else if i = AST2600_PROT_KEY then hw_prot_key s
         else resets (aspeed_2600_scu_class h) i))
   \<and> (asc \<in> {aspeed_2400_scu_class h, aspeed_2500_scu_class h, aspeed_2600_scu_class h} \<longrightarrow>
      dc_reset asc (dc_reset asc s) = dc_reset asc s)"
proof (intro conjI impI)
  assume "asc \<in> {aspeed_2400_scu_class h, aspeed_2500_scu_class h, aspeed_2600_scu_class h}"
  then show "dc_reset asc (dc_reset asc s) = dc_reset asc s"
    by (auto simp: class_defs aspeed_scu_reset_idem aspeed_ast2600_scu_reset_idem)
qed (simp_all add: class_defs aspeed_scu_reset_regs aspeed_ast2600_scu_reset_regs TO_REG_div)

theorem reset_register_file_witness:
  "regs (dc_reset (aspeed_2400_scu_class sample_header) (zeroed 5)) SYS_RST_CTRL = 0xFFCFFEDC
   \<and> regs (dc_reset (aspeed_2500_scu_class sample_header) (zeroed 5)) SYS_RST_CTRL = 0xFFCFFEDC
   \<and> regs (dc_reset (aspeed_2600_scu_class sample_header) (zeroed 5)) AST2600_SILICON_REV
        = 0x05010303
   \<and> regs (dc_reset (aspeed_2400_scu_class sample_header) (zeroed 5)) PROT_KEY = 5
   \<and> regs (dc_reset (aspeed_2600_scu_class sample_header) (zeroed 5)) (TO_REG 0x10) = 0
   \<and> dc_reset (aspeed_2600_scu_class sample_header)
        (dc_reset (aspeed_2600_scu_class sample_header) (zeroed 5))
      = dc_reset (aspeed_2600_scu_class sample_header) (zeroed 5)"
  using reset_register_file [of SYS_RST_CTRL sample_header "zeroed 5"
      "aspeed_2600_scu_class sample_header"]
    reset_register_file [of PROT_KEY sample_header "zeroed 5"]
    reset_register_file [of "TO_REG 0x10" sample_header "zeroed 5"]
  by (simp add: class_defs table_defs sample_header_def zeroed_def TO_REG_div
      drop_bit_eq_div)

subsection \<open>Write-one-to-clear and write-one-to-set on the AST2600\<close>

text \<open>
  C5. On the AST2600 a write of \<open>v\<close> to one of the six W1C registers stores
  \<open>old AND NOT v\<close> in the register one word below (its set register) and changes
  nothing else, so the slot of the clear register itself keeps its value; the only
  diagnostic is the lock message when the key register holds 0. In particular,
  writing 1 to \<open>AST2600_SYS_RST_CTRL\<close> (offset 0x40) and then 1 to
  \<open>AST2600_SYS_RST_CTRL_CLR\<close> (offset 0x44) leaves the device in the state it had
  before with bit 0 of \<open>AST2600_SYS_RST_CTRL\<close> cleared: that bit reads 0 and every
  other bit of the register is as it was.
\<close>

theorem w1c_write:
  "(TO_REG (unat offset) \<in> {AST2600_SYS_RST_CTRL_CLR, AST2600_SYS_RST_CTRL2_CLR,
        AST2600_CLK_STOP_CTRL_CLR, AST2600_CLK_STOP_CTRL2_CLR,
        AST2600_HW_STRAP1_CLR, AST2600_HW_STRAP2_CLR}
      \<and> TO_REG (unat offset) < ASPEED_AST2600_SCU_NR_REGS h \<longrightarrow>
      aspeed_ast2600_scu_write h s offset v sz =
        (s\<lparr>regs := (regs s)(TO_REG (unat offset) - 1 :=
               regs s (TO_REG (unat offset) - 1) AND NOT v)\<rparr>,
         if regs s PROT_KEY = 0 then [SCU_is_locked] else [])
      \<and> regs (fst (aspeed_ast2600_scu_write h s offset v sz)) (TO_REG (unat offset)) =
          regs s (TO_REG (unat offset)))
   \<and> (AST2600_SYS_RST_CTRL_CLR < ASPEED_AST2600_SCU_NR_REGS h \<longrightarrow>
      fst (aspeed_ast2600_scu_write h
            (fst (aspeed_ast2600_scu_write h s 0x40 0x1 sz)) 0x44 0x1 sz) =
        s\<lparr>regs := (regs s)(AST2600_SYS_RST_CTRL := regs s AST2600_SYS_RST_CTRL AND NOT 0x1)\<rparr>
      \<and> \<not> bit (regs (fst (aspeed_ast2600_scu_write h
            (fst (aspeed_ast2600_scu_write h s 0x40 0x1 sz)) 0x44 0x1 sz))
              AST2600_SYS_RST_CTRL) 0
      \<and> (0 < n \<longrightarrow>
          bit (regs (fst (aspeed_ast2600_scu_write h
            (fst (aspeed_ast2600_scu_write h s 0x40 0x1 sz)) 0x44 0x1 sz))
              AST2600_SYS_RST_CTRL) n
          = bit (regs s AST2600_SYS_RST_CTRL) n))"
proof -
  have general: "aspeed_ast2600_scu_write h s offset v sz =
        (s\<lparr>regs := (regs s)(TO_REG (unat offset) - 1 :=
               regs s (TO_REG (unat offset) - 1) AND NOT v)\<rparr>,
         if regs s PROT_KEY = 0 then [SCU_is_locked] else [])"
    if "TO_REG (unat offset) \<in> {AST2600_SYS_RST_CTRL_CLR, AST2600_SYS_RST_CTRL2_CLR,
        AST2600_CLK_STOP_CTRL_CLR, AST2600_CLK_STOP_CTRL2_CLR,
        AST2600_HW_STRAP1_CLR, AST2600_HW_STRAP2_CLR}
      \<and> TO_REG (unat offset) < ASPEED_AST2600_SCU_NR_REGS h"
    using that by (auto simp: aspeed_ast2600_scu_write_def TO_REG_div Let_def)
  have own: "regs (fst (aspeed_ast2600_scu_write h s offset v sz)) (TO_REG (unat offset)) =
          regs s (TO_REG (unat offset))"
    if a: "TO_REG (unat offset) \<in> {AST2600_SYS_RST_CTRL_CLR, AST2600_SYS_RST_CTRL2_CLR,
        AST2600_CLK_STOP_CTRL_CLR, AST2600_CLK_STOP_CTRL2_CLR,
        AST2600_HW_STRAP1_CLR, AST2600_HW_STRAP2_CLR}
      \<and> TO_REG (unat offset) < ASPEED_AST2600_SCU_NR_REGS h"
  proof -
    from a have "TO_REG (unat offset) - 1 \<noteq> TO_REG (unat offset)"
      by (auto simp: TO_REG_div)
    with general [OF a] show ?thesis
      by simp
  qed
  have round_trip: "fst (aspeed_ast2600_scu_write h
            (fst (aspeed_ast2600_scu_write h s 0x40 0x1 sz)) 0x44 0x1 sz) =
        s\<lparr>regs := (regs s)(AST2600_SYS_RST_CTRL := regs s AST2600_SYS_RST_CTRL AND NOT 0x1)\<rparr>"
    if n: "AST2600_SYS_RST_CTRL_CLR < ASPEED_AST2600_SCU_NR_REGS h"
  proof -
    have set: "fst (aspeed_ast2600_scu_write h s 0x40 0x1 sz) =
        s\<lparr>regs := (regs s)(AST2600_SYS_RST_CTRL := regs s AST2600_SYS_RST_CTRL OR 0x1)\<rparr>"
      using n by (simp add: aspeed_ast2600_scu_write_def TO_REG_div Let_def)
    have clr: "fst (aspeed_ast2600_scu_write h t 0x44 0x1 sz) =
        t\<lparr>regs := (regs t)(AST2600_SYS_RST_CTRL := regs t AST2600_SYS_RST_CTRL AND NOT 0x1)\<rparr>"
      for t
      using n by (simp add: aspeed_ast2600_scu_write_def TO_REG_div Let_def)
    show ?thesis
      by (simp only: set clr) (simp add: or_and_not_absorb [of _ 1, simplified])
  qed
  show ?thesis
    using general own round_trip and_not_1_bits [where x = "regs s AST2600_SYS_RST_CTRL"]
    by (simp del: insert_iff)
qed

theorem w1c_write_witness:
  "aspeed_ast2600_scu_write sample_header
      (dc_reset (aspeed_2600_scu_class sample_header) (zeroed 1)) 0x44 0x18 4
    = ((dc_reset (aspeed_2600_scu_class sample_header) (zeroed 1))
         \<lparr>regs := (regs (dc_reset (aspeed_2600_scu_class sample_header) (zeroed 1)))
            (AST2600_SYS_RST_CTRL := 0xF7C3FEC0)\<rparr>, [])
   \<and> fst (aspeed_ast2600_scu_write sample_header
        (fst (aspeed_ast2600_scu_write sample_header (zeroed 1) 0x40 0x1 4)) 0x44 0x1 4)
      = (zeroed 1)\<lparr>regs := (regs (zeroed 1))(AST2600_SYS_RST_CTRL := 0)\<rparr>"
  using w1c_write [of "0x44" sample_header
      "dc_reset (aspeed_2600_scu_class sample_header) (zeroed 1)" "0x18" 4 1]
    w1c_write [of "0x44" sample_header "zeroed 1" "0x18" 4 1]
  by (simp add: class_defs reset_defs table_defs sample_header_simps zeroed_def TO_REG_div
      drop_bit_eq_div Let_def)

text \<open>
  C7. On the AST2600 a write to a strap register (\<open>AST2600_HW_STRAP1\<close>,
  \<open>AST2600_HW_STRAP2\<close>) leaves the state as it was when the protection register of
  that strap (two words above: \<open>AST2600_HW_STRAP1_PROT\<close>, \<open>AST2600_HW_STRAP2_PROT\<close>)
  holds a nonzero value, and ORs the written word into the strap register when the
  protection register holds 0. The ignored write has no diagnostic of its own: the
  log holds the lock message exactly when the key register holds 0.
\<close>

theorem strap_w1s_write:
  "(TO_REG (unat offset) = AST2600_HW_STRAP1
      \<and> AST2600_HW_STRAP1 < ASPEED_AST2600_SCU_NR_REGS h \<longrightarrow>
      fst (aspeed_ast2600_scu_write h s offset v sz) =
        (if regs s AST2600_HW_STRAP1_PROT \<noteq> 0 then s
         else s\<lparr>regs := (regs s)(AST2600_HW_STRAP1 := regs s AST2600_HW_STRAP1 OR v)\<rparr>))
   \<and> (TO_REG (unat offset) = AST2600_HW_STRAP2
      \<and> AST2600_HW_STRAP2 < ASPEED_AST2600_SCU_NR_REGS h \<longrightarrow>
      fst (aspeed_ast2600_scu_write h s offset v sz) =
        (if regs s AST2600_HW_STRAP2_PROT \<noteq> 0 then s
         else s\<lparr>regs := (regs s)(AST2600_HW_STRAP2 := regs s AST2600_HW_STRAP2 OR v)\<rparr>))
   \<and> (TO_REG (unat offset) \<in> {AST2600_HW_STRAP1, AST2600_HW_STRAP2}
      \<and> TO_REG (unat offset) < ASPEED_AST2600_SCU_NR_REGS h \<longrightarrow>
      snd (aspeed_ast2600_scu_write h s offset v sz) =
        (if regs s PROT_KEY = 0 then [SCU_is_locked] else []))"
  by (auto simp: aspeed_ast2600_scu_write_def TO_REG_div Let_def)

theorem strap_w1s_write_witness:
  "fst (aspeed_ast2600_scu_write sample_header
      ((zeroed 1)\<lparr>regs := (\<lambda>i. 0)(AST2600_HW_STRAP1 := 0x3, AST2600_HW_STRAP1_PROT := 0x1)\<rparr>)
      0x500 0xC 4)
    = (zeroed 1)\<lparr>regs := (\<lambda>i. 0)(AST2600_HW_STRAP1 := 0x3, AST2600_HW_STRAP1_PROT := 0x1)\<rparr>
   \<and> fst (aspeed_ast2600_scu_write sample_header
      ((zeroed 1)\<lparr>regs := (\<lambda>i. 0)(AST2600_HW_STRAP2 := 0x3)\<rparr>) 0x510 0xC 4)
    = (zeroed 1)\<lparr>regs := (\<lambda>i. 0)(AST2600_HW_STRAP2 := 0xF)\<rparr>
   \<and> snd (aspeed_ast2600_scu_write sample_header
      ((zeroed 1)\<lparr>regs := (\<lambda>i. 0)(AST2600_HW_STRAP2 := 0x3)\<rparr>) 0x510 0xC 4)
    = [SCU_is_locked]"
  using strap_w1s_write [of "0x500" sample_header
      "(zeroed 1)\<lparr>regs := (\<lambda>i. 0)(AST2600_HW_STRAP1 := 0x3, AST2600_HW_STRAP1_PROT := 0x1)\<rparr>"
      "0xC" 4]
    strap_w1s_write [of "0x510" sample_header
      "(zeroed 1)\<lparr>regs := (\<lambda>i. 0)(AST2600_HW_STRAP2 := 0x3)\<rparr>" "0xC" 4]
  by (simp add: sample_header_simps zeroed_def TO_REG_div drop_bit_eq_div)

text \<open>
  C8. On the AST2600 a write of \<open>v\<close> to a strap-clear register
  (\<open>AST2600_HW_STRAP1_CLR\<close>, \<open>AST2600_HW_STRAP2_CLR\<close>) stores \<open>old AND NOT v\<close> in the
  paired strap register in every state, whatever the protection register of the strap
  holds: the protection register gates the set path only.
\<close>

theorem strap_clear_ignores_protection:
  "(TO_REG (unat offset) = AST2600_HW_STRAP1_CLR
      \<and> AST2600_HW_STRAP1_CLR < ASPEED_AST2600_SCU_NR_REGS h \<longrightarrow>
      fst (aspeed_ast2600_scu_write h s offset v sz) =
        s\<lparr>regs := (regs s)(AST2600_HW_STRAP1 := regs s AST2600_HW_STRAP1 AND NOT v)\<rparr>)
   \<and> (TO_REG (unat offset) = AST2600_HW_STRAP2_CLR
      \<and> AST2600_HW_STRAP2_CLR < ASPEED_AST2600_SCU_NR_REGS h \<longrightarrow>
      fst (aspeed_ast2600_scu_write h s offset v sz) =
        s\<lparr>regs := (regs s)(AST2600_HW_STRAP2 := regs s AST2600_HW_STRAP2 AND NOT v)\<rparr>)"
  by (simp add: aspeed_ast2600_scu_write_def TO_REG_div Let_def)

theorem strap_clear_ignores_protection_witness:
  "regs ((zeroed 1)\<lparr>regs := (\<lambda>i. 0)(AST2600_HW_STRAP1 := 0x7, AST2600_HW_STRAP1_PROT := 0x1)\<rparr>)
      AST2600_HW_STRAP1_PROT \<noteq> 0
   \<and> fst (aspeed_ast2600_scu_write sample_header
      ((zeroed 1)\<lparr>regs := (\<lambda>i. 0)(AST2600_HW_STRAP1 := 0x7, AST2600_HW_STRAP1_PROT := 0x1)\<rparr>)
      0x504 0x5 4)
    = (zeroed 1)\<lparr>regs := (\<lambda>i. 0)(AST2600_HW_STRAP1 := 0x2, AST2600_HW_STRAP1_PROT := 0x1)\<rparr>
   \<and> fst (aspeed_ast2600_scu_write sample_header
      ((zeroed 1)\<lparr>regs := (\<lambda>i. 0)(AST2600_HW_STRAP2 := 0x7, AST2600_HW_STRAP2_PROT := 0x1)\<rparr>)
      0x514 0x5 4)
    = (zeroed 1)\<lparr>regs := (\<lambda>i. 0)(AST2600_HW_STRAP2 := 0x2, AST2600_HW_STRAP2_PROT := 0x1)\<rparr>"
  using strap_clear_ignores_protection [of "0x504" sample_header
      "(zeroed 1)\<lparr>regs := (\<lambda>i. 0)(AST2600_HW_STRAP1 := 0x7, AST2600_HW_STRAP1_PROT := 0x1)\<rparr>"
      "0x5" 4]
    strap_clear_ignores_protection [of "0x514" sample_header
      "(zeroed 1)\<lparr>regs := (\<lambda>i. 0)(AST2600_HW_STRAP2 := 0x7, AST2600_HW_STRAP2_PROT := 0x1)\<rparr>"
      "0x5" 4]
  by (simp add: sample_header_simps zeroed_def TO_REG_div drop_bit_eq_div fun_upd_twist)

subsection \<open>The strap register of the AST2500\<close>

text \<open>
  C9. On the AST2500 a write of \<open>v\<close> to \<open>HW_STRAP1\<close> stores \<open>old OR v\<close> there, and a
  write of \<open>v\<close> addressed to \<open>SILICON_REV\<close> stores \<open>old AND NOT v\<close> in \<open>HW_STRAP1\<close>
  and leaves the slot of \<open>SILICON_REV\<close> as it was. The other two revisions do neither:
  the AST2400 replaces \<open>HW_STRAP1\<close> by \<open>v\<close> and discards a write to \<open>SILICON_REV\<close>, and
  the AST2600 discards a write to its \<open>AST2600_SILICON_REV\<close>.
\<close>

theorem ast2500_strap_alias:
  "(TO_REG (unat offset) = HW_STRAP1 \<and> HW_STRAP1 < ASPEED_SCU_NR_REGS h \<longrightarrow>
      fst (aspeed_ast2500_scu_write h s offset v sz) =
        s\<lparr>regs := (regs s)(HW_STRAP1 := regs s HW_STRAP1 OR v)\<rparr>
    \<and> fst (aspeed_ast2400_scu_write h s offset v sz) =
        s\<lparr>regs := (regs s)(HW_STRAP1 := v)\<rparr>)
   \<and> (TO_REG (unat offset) = SILICON_REV \<and> SILICON_REV < ASPEED_SCU_NR_REGS h \<longrightarrow>
      fst (aspeed_ast2500_scu_write h s offset v sz) =
        s\<lparr>regs := (regs s)(HW_STRAP1 := regs s HW_STRAP1 AND NOT v)\<rparr>
    \<and> regs (fst (aspeed_ast2500_scu_write h s offset v sz)) SILICON_REV = regs s SILICON_REV
    \<and> fst (aspeed_ast2400_scu_write h s offset v sz) = s)
   \<and> (TO_REG (unat offset) = AST2600_SILICON_REV
      \<and> AST2600_SILICON_REV < ASPEED_AST2600_SCU_NR_REGS h \<longrightarrow>
      fst (aspeed_ast2600_scu_write h s offset v sz) = s)"
  by (simp add: write_defs TO_REG_div Let_def)

theorem ast2500_strap_alias_witness:
  "fst (aspeed_ast2500_scu_write sample_header
      ((zeroed 1)\<lparr>regs := (\<lambda>i. 0)(HW_STRAP1 := 0x6)\<rparr>) 0x70 0x3 4)
    = (zeroed 1)\<lparr>regs := (\<lambda>i. 0)(HW_STRAP1 := 0x7)\<rparr>
   \<and> fst (aspeed_ast2500_scu_write sample_header
      ((zeroed 1)\<lparr>regs := (\<lambda>i. 0)(HW_STRAP1 := 0x6)\<rparr>) 0x7C 0x3 4)
    = (zeroed 1)\<lparr>regs := (\<lambda>i. 0)(HW_STRAP1 := 0x4)\<rparr>
   \<and> fst (aspeed_ast2400_scu_write sample_header
      ((zeroed 1)\<lparr>regs := (\<lambda>i. 0)(HW_STRAP1 := 0x6)\<rparr>) 0x70 0x3 4)
    = (zeroed 1)\<lparr>regs := (\<lambda>i. 0)(HW_STRAP1 := 0x3)\<rparr>
   \<and> fst (aspeed_ast2600_scu_write sample_header
      ((zeroed 1)\<lparr>regs := (\<lambda>i. 0)(HW_STRAP1 := 0x6)\<rparr>) 0x04 0x3 4)
    = (zeroed 1)\<lparr>regs := (\<lambda>i. 0)(HW_STRAP1 := 0x6)\<rparr>"
  using ast2500_strap_alias [of "0x70" sample_header
      "(zeroed 1)\<lparr>regs := (\<lambda>i. 0)(HW_STRAP1 := 0x6)\<rparr>" "0x3" 4]
    ast2500_strap_alias [of "0x7C" sample_header
      "(zeroed 1)\<lparr>regs := (\<lambda>i. 0)(HW_STRAP1 := 0x6)\<rparr>" "0x3" 4]
    ast2500_strap_alias [of "0x04" sample_header
      "(zeroed 1)\<lparr>regs := (\<lambda>i. 0)(HW_STRAP1 := 0x6)\<rparr>" "0x3" 4]
  by (simp add: sample_header_simps zeroed_def TO_REG_div)

subsection \<open>Writes while the protection key is locked\<close>

text \<open>
  C1, as stated, fails. On the AST2400 and on the AST2500, after a reset with
  \<open>hw_prot_key = 0\<close> the key register holds 0 and \<open>SYS_RST_CTRL\<close> (offset 0x04, strictly
  between the key register and \<open>CPU2_BASE_SEG1\<close>) holds 0xFFCFFEDC; a write of 0 to
  offset 0x04 in that state leaves \<open>SYS_RST_CTRL\<close> holding 0: the write was applied.
\<close>

theorem locked_write_counterexample:
  "regs (dc_reset (aspeed_2400_scu_class sample_header) (zeroed 0)) PROT_KEY = 0
   \<and> PROT_KEY < TO_REG (unat (0x04 :: hwaddr))
   \<and> TO_REG (unat (0x04 :: hwaddr)) < CPU2_BASE_SEG1
   \<and> regs (dc_reset (aspeed_2400_scu_class sample_header) (zeroed 0)) SYS_RST_CTRL = 0xFFCFFEDC
   \<and> regs (fst (aspeed_ast2400_scu_write sample_header
        (dc_reset (aspeed_2400_scu_class sample_header) (zeroed 0)) 0x04 0 4)) SYS_RST_CTRL = 0
   \<and> regs (dc_reset (aspeed_2500_scu_class sample_header) (zeroed 0)) PROT_KEY = 0
   \<and> regs (dc_reset (aspeed_2500_scu_class sample_header) (zeroed 0)) SYS_RST_CTRL = 0xFFCFFEDC
   \<and> regs (fst (aspeed_ast2500_scu_write sample_header
        (dc_reset (aspeed_2500_scu_class sample_header) (zeroed 0)) 0x04 0 4)) SYS_RST_CTRL = 0"
  by (simp add: class_defs aspeed_scu_reset_regs write_defs sample_header_simps zeroed_def
      TO_REG_div Let_def table_defs)

text \<open>
  C1, amended. On the AST2400 and the AST2500 the lock check only reports: a write to
  a register index strictly between the key register and \<open>CPU2_BASE_SEG1\<close> that is not
  one of the registers with a case of their own (the read-only registers and, on the
  AST2500, \<open>HW_STRAP1\<close> and \<open>SILICON_REV\<close>) stores the written word at that index,
  whether the key register holds 0 or not. With the key register at 0 the handler emits
  the diagnostic "SCU is locked!" and applies the write all the same; with any other
  value there is no diagnostic.
\<close>

theorem locked_write_applied:
  "PROT_KEY < TO_REG (unat offset) \<Longrightarrow> TO_REG (unat offset) < CPU2_BASE_SEG1 \<Longrightarrow>
   TO_REG (unat offset) < ASPEED_SCU_NR_REGS h \<Longrightarrow>
   (TO_REG (unat offset) \<notin> {SILICON_REV, FREQ_CNTR_EVAL, RNG_DATA, FREE_CNTR4, FREE_CNTR4_EXT}
      \<union> {VGA_SCRATCH1..VGA_SCRATCH8} \<longrightarrow>
      aspeed_ast2400_scu_write h s offset data sz =
        (s\<lparr>regs := (regs s)(TO_REG (unat offset) := data)\<rparr>,
         if regs s PROT_KEY = 0 then [SCU_is_locked] else []))
   \<and> (TO_REG (unat offset) \<notin> {HW_STRAP1, SILICON_REV, FREQ_CNTR_EVAL, RNG_DATA, FREE_CNTR4,
        FREE_CNTR4_EXT} \<union> {VGA_SCRATCH1..VGA_SCRATCH8} \<longrightarrow>
      aspeed_ast2500_scu_write h s offset data sz =
        (s\<lparr>regs := (regs s)(TO_REG (unat offset) := data)\<rparr>,
         if regs s PROT_KEY = 0 then [SCU_is_locked] else []))"
  by (simp add: write_defs TO_REG_div Let_def)

theorem locked_write_applied_witness:
  "aspeed_ast2400_scu_write sample_header (zeroed 0) 0x04 5 4
    = ((zeroed 0)\<lparr>regs := (\<lambda>i. 0)(SYS_RST_CTRL := 5)\<rparr>, [SCU_is_locked])
   \<and> aspeed_ast2500_scu_write sample_header (zeroed 0) 0x04 5 4
    = ((zeroed 0)\<lparr>regs := (\<lambda>i. 0)(SYS_RST_CTRL := 5)\<rparr>, [SCU_is_locked])
   \<and> aspeed_ast2400_scu_write sample_header
        ((zeroed 0)\<lparr>regs := (\<lambda>i. 0)(PROT_KEY := 1)\<rparr>) 0x04 5 4
    = ((zeroed 0)\<lparr>regs := (\<lambda>i. 0)(PROT_KEY := 1, SYS_RST_CTRL := 5)\<rparr>, [])"
  using locked_write_applied [of "0x04" sample_header "zeroed 0" 5 4]
    locked_write_applied [of "0x04" sample_header
      "(zeroed 0)\<lparr>regs := (\<lambda>i. 0)(PROT_KEY := 1)\<rparr>" 5 4]
  by (simp add: sample_header_simps zeroed_def TO_REG_div)

subsection \<open>The APB frequency\<close>

text \<open>
  C6, as stated, fails in its second half. On the AST2500, with the HPLL parameter
  register holding only the bypass bit (off bit clear), the clock-select register 0
  and no strap bit set, the input clock is 24 MHz, but
  \<open>aspeed_scu_get_apb_freq\<close> returns 6 MHz: the input clock divided by the PCLK
  divider plus one and by the APB divider of the class.
\<close>

theorem apb_freq_bypass_counterexample:
  "regs ((zeroed 0)\<lparr>regs := (\<lambda>i. 0)(HPLL_PARAM := SCU_H_PLL_BYPASS_EN sample_header)\<rparr>)
      HPLL_PARAM AND SCU_H_PLL_OFF sample_header = 0
   \<and> regs ((zeroed 0)\<lparr>regs := (\<lambda>i. 0)(HPLL_PARAM := SCU_H_PLL_BYPASS_EN sample_header)\<rparr>)
      HPLL_PARAM AND SCU_H_PLL_BYPASS_EN sample_header \<noteq> 0
   \<and> aspeed_scu_get_clkin sample_header
       ((zeroed 0)\<lparr>regs := (\<lambda>i. 0)(HPLL_PARAM := SCU_H_PLL_BYPASS_EN sample_header)\<rparr>)
      = 24000000
   \<and> aspeed_scu_get_apb_freq sample_header (aspeed_2500_scu_class sample_header)
       ((zeroed 0)\<lparr>regs := (\<lambda>i. 0)(HPLL_PARAM := SCU_H_PLL_BYPASS_EN sample_header)\<rparr>)
      = Some 6000000"
  by (simp add: aspeed_scu_get_apb_freq_def class_defs aspeed_2500_scu_calc_hpll_def
      aspeed_scu_get_clkin_def sample_header_simps zeroed_def TO_REG_div Let_def)

text \<open>
  C6, amended. The statement is about the AST2400 and the AST2500, the two revisions
  whose PLL parameter register is \<open>HPLL_PARAM\<close> and whose clock-select register is
  \<open>CLK_SEL\<close>, the two words \<open>aspeed_scu_get_apb_freq\<close> reads. Provided the PCLK divider
  plus one is not 0 (it is a divisor): on both revisions the function returns 0
  whenever the off bit of the HPLL parameter register is set, whatever the other
  fields hold; on the AST2500, when the off bit is clear and the bypass bit is set, it
  returns the input clock frequency divided by the PCLK divider plus one and then by
  the APB divider of the class, which is 4; on the AST2400 the same holds, with the
  APB divider 2, when in addition the "programmed" bit is set (without it the
  frequency comes from the strap table). The input clock frequency is 25 MHz, 48 MHz
  or 24 MHz, selected by the strap bits.
\<close>

theorem apb_freq_off_bypass:
  "SCU_CLK_GET_PCLK_DIV h (regs s CLK_SEL) + 1 \<noteq> 0 \<Longrightarrow>
   (regs s HPLL_PARAM AND SCU_H_PLL_OFF h \<noteq> 0 \<longrightarrow>
      aspeed_scu_get_apb_freq h (aspeed_2500_scu_class h) s = Some 0)
   \<and> (regs s HPLL_PARAM AND SCU_H_PLL_OFF h = 0
        \<and> regs s HPLL_PARAM AND SCU_H_PLL_BYPASS_EN h \<noteq> 0 \<longrightarrow>
        aspeed_scu_get_apb_freq h (aspeed_2500_scu_class h) s =
          Some (aspeed_scu_get_clkin h s div (SCU_CLK_GET_PCLK_DIV h (regs s CLK_SEL) + 1)
                  div 4))
   \<and> (regs s HPLL_PARAM AND SCU_AST2400_H_PLL_OFF h \<noteq> 0 \<longrightarrow>
        aspeed_scu_get_apb_freq h (aspeed_2400_scu_class h) s = Some 0)
   \<and> (regs s HPLL_PARAM AND SCU_AST2400_H_PLL_OFF h = 0
        \<and> regs s HPLL_PARAM AND SCU_AST2400_H_PLL_PROGRAMMED h \<noteq> 0
        \<and> regs s HPLL_PARAM AND SCU_AST2400_H_PLL_BYPASS_EN h \<noteq> 0 \<longrightarrow>
        aspeed_scu_get_apb_freq h (aspeed_2400_scu_class h) s =
          Some (aspeed_scu_get_clkin h s div (SCU_CLK_GET_PCLK_DIV h (regs s CLK_SEL) + 1)
                  div 2))
   \<and> aspeed_scu_get_clkin h s =
       (if hw_strap1 s AND SCU_HW_STRAP_CLK_25M_IN h \<noteq> 0 then 25000000
        else if hw_strap1 s AND SCU_HW_STRAP_CLK_48M_IN h \<noteq> 0 then 48000000
        else 24000000)"
proof -
  assume pclk: "SCU_CLK_GET_PCLK_DIV h (regs s CLK_SEL) + 1 \<noteq> 0"
  have mid: "aspeed_scu_get_apb_freq h (aspeed_2500_scu_class h) s = Some 0"
    if "regs s HPLL_PARAM AND SCU_H_PLL_OFF h \<noteq> 0"
    using that pclk
    by (simp add: aspeed_scu_get_apb_freq_def aspeed_2500_scu_class_def
        aspeed_2500_scu_calc_hpll_def Let_def)
  have mid_bypass: "aspeed_scu_get_apb_freq h (aspeed_2500_scu_class h) s =
      Some (aspeed_scu_get_clkin h s div (SCU_CLK_GET_PCLK_DIV h (regs s CLK_SEL) + 1)
              div 4)"
    if "regs s HPLL_PARAM AND SCU_H_PLL_OFF h = 0
        \<and> regs s HPLL_PARAM AND SCU_H_PLL_BYPASS_EN h \<noteq> 0"
    using that pclk
    by (simp add: aspeed_scu_get_apb_freq_def aspeed_2500_scu_class_def
        aspeed_2500_scu_calc_hpll_def Let_def)
  have old: "aspeed_scu_get_apb_freq h (aspeed_2400_scu_class h) s = Some 0"
    if "regs s HPLL_PARAM AND SCU_AST2400_H_PLL_OFF h \<noteq> 0"
    using that pclk
    by (simp add: aspeed_scu_get_apb_freq_def aspeed_2400_scu_class_def
        aspeed_2400_scu_calc_hpll_def Let_def)
  have old_bypass: "aspeed_scu_get_apb_freq h (aspeed_2400_scu_class h) s =
      Some (aspeed_scu_get_clkin h s div (SCU_CLK_GET_PCLK_DIV h (regs s CLK_SEL) + 1)
              div 2)"
    if "regs s HPLL_PARAM AND SCU_AST2400_H_PLL_OFF h = 0
        \<and> regs s HPLL_PARAM AND SCU_AST2400_H_PLL_PROGRAMMED h \<noteq> 0
        \<and> regs s HPLL_PARAM AND SCU_AST2400_H_PLL_BYPASS_EN h \<noteq> 0"
    using that pclk
    by (simp add: aspeed_scu_get_apb_freq_def aspeed_2400_scu_class_def
        aspeed_2400_scu_calc_hpll_def Let_def)
  show ?thesis
    using mid mid_bypass old old_bypass
    by (simp add: aspeed_scu_get_clkin_def)
qed

theorem apb_freq_off_bypass_witness:
  "aspeed_scu_get_apb_freq sample_header (aspeed_2500_scu_class sample_header)
      ((zeroed 0)\<lparr>regs := (\<lambda>i. 0)(HPLL_PARAM := 0x80000)\<rparr>) = Some 0
   \<and> aspeed_scu_get_apb_freq sample_header (aspeed_2500_scu_class sample_header)
      ((zeroed 0)\<lparr>regs := (\<lambda>i. 0)(HPLL_PARAM := 0x100000)\<rparr>) = Some 6000000
   \<and> aspeed_scu_get_apb_freq sample_header (aspeed_2400_scu_class sample_header)
      ((zeroed 0)\<lparr>regs := (\<lambda>i. 0)(HPLL_PARAM := 0x10000)\<rparr>) = Some 0
   \<and> aspeed_scu_get_apb_freq sample_header (aspeed_2400_scu_class sample_header)
      ((zeroed 0)\<lparr>regs := (\<lambda>i. 0)(HPLL_PARAM := 0x60000)\<rparr>) = Some 12000000"
  using apb_freq_off_bypass [of sample_header
      "(zeroed 0)\<lparr>regs := (\<lambda>i. 0)(HPLL_PARAM := 0x80000)\<rparr>"]
    apb_freq_off_bypass [of sample_header
      "(zeroed 0)\<lparr>regs := (\<lambda>i. 0)(HPLL_PARAM := 0x100000)\<rparr>"]
    apb_freq_off_bypass [of sample_header
      "(zeroed 0)\<lparr>regs := (\<lambda>i. 0)(HPLL_PARAM := 0x10000)\<rparr>"]
    apb_freq_off_bypass [of sample_header
      "(zeroed 0)\<lparr>regs := (\<lambda>i. 0)(HPLL_PARAM := 0x60000)\<rparr>"]
  by (simp add: sample_header_simps zeroed_def TO_REG_div)

subsection \<open>The values of the protection-key register in reachable states\<close>

text \<open>
  C2, as stated, fails. A device of the AST2400 class constructed with
  \<open>hw_prot_key = 0x1688A8A8\<close> and then reset is a reachable state, and its
  protection-key register holds 0x1688A8A8, which is neither 0 nor 1: reset copies the
  configured word into the register as it is.
\<close>

theorem prot_key_raw_counterexample:
  "scu_reachable (aspeed_2400_scu_class sample_header)
      (dc_reset (aspeed_2400_scu_class sample_header) (zeroed 0x1688A8A8))
   \<and> regs (dc_reset (aspeed_2400_scu_class sample_header) (zeroed 0x1688A8A8)) PROT_KEY
      = 0x1688A8A8
   \<and> (0x1688A8A8 :: u32) \<noteq> 0 \<and> (0x1688A8A8 :: u32) \<noteq> 1"
proof -
  have "scu_reachable (aspeed_2400_scu_class sample_header) (zeroed 0x1688A8A8)"
    by (rule scu_reachable.constructed) (simp add: zeroed_def)
  then have "scu_reachable (aspeed_2400_scu_class sample_header)
      (dc_reset (aspeed_2400_scu_class sample_header) (zeroed 0x1688A8A8))"
    by (rule scu_reachable.after_reset)
  then show ?thesis
    by (simp add: class_defs aspeed_scu_reset_regs zeroed_def)
qed

lemma key_inv_write:
  assumes "key_inv s"
  shows "key_inv (fst (aspeed_ast2400_scu_write h s offset data sz))"
    and "key_inv (fst (aspeed_ast2500_scu_write h s offset data sz))"
    and "key_inv (fst (aspeed_ast2600_scu_write h s offset data sz))"
  using assms by (auto simp: key_inv_def write_defs TO_REG_div Let_def)

lemma key_inv_read:
  assumes "key_inv s"
  shows "key_inv (fst (snd (aspeed_scu_read h rnd s offset sz)))"
    and "key_inv (fst (snd (aspeed_ast2600_scu_read h rnd s offset sz)))"
  using assms by (auto simp: key_inv_def read_defs TO_REG_div Let_def)

lemma key_inv_reset:
  "key_inv (aspeed_scu_reset tab n s)"
  "key_inv (aspeed_ast2600_scu_reset h tab n s)"
  by (simp_all add: key_inv_def reset_defs Let_def TO_REG_div)

lemma key_inv_class:
  assumes "asc \<in> {aspeed_2400_scu_class h, aspeed_2500_scu_class h, aspeed_2600_scu_class h}"
  shows "key_inv (dc_reset asc s)"
    and "key_inv s \<Longrightarrow> key_inv (fst (snd (ops_read asc rnd s offset sz)))"
    and "key_inv s \<Longrightarrow> key_inv (fst (ops_write asc s offset data sz))"
proof -
  from assms consider "asc = aspeed_2400_scu_class h" | "asc = aspeed_2500_scu_class h"
    | "asc = aspeed_2600_scu_class h"
    by blast
  then show "key_inv (dc_reset asc s)"
    by cases (simp_all add: class_defs key_inv_reset)
next
  assume inv: "key_inv s"
  from assms consider "asc = aspeed_2400_scu_class h" | "asc = aspeed_2500_scu_class h"
    | "asc = aspeed_2600_scu_class h"
    by blast
  then show "key_inv (fst (snd (ops_read asc rnd s offset sz)))"
    by cases (simp_all add: class_defs key_inv_read [OF inv])
next
  assume inv: "key_inv s"
  from assms consider "asc = aspeed_2400_scu_class h" | "asc = aspeed_2500_scu_class h"
    | "asc = aspeed_2600_scu_class h"
    by blast
  then show "key_inv (fst (ops_write asc s offset data sz))"
    by cases (simp_all add: class_defs key_inv_write [OF inv])
qed

text \<open>
  C2, amended. For every revision and every reachable state of the device (after any
  sequence of construction, reset, reads and writes) the protection-key register holds
  0, 1 or the configured initial key state \<open>hw_prot_key\<close>: reset stores the configured
  word unchanged, and every write to the register stores 0 or 1.
\<close>

theorem prot_key_values:
  assumes "asc \<in> {aspeed_2400_scu_class h, aspeed_2500_scu_class h, aspeed_2600_scu_class h}"
    and "scu_reachable asc s"
  shows "regs s PROT_KEY \<in> {0, 1, hw_prot_key s}"
proof -
  from assms(2) have "key_inv s"
  proof induction
    case (constructed s)
    then show ?case by (simp add: key_inv_def)
  next
    case (after_reset s)
    show ?case by (rule key_inv_class(1) [OF assms(1)])
  next
    case (after_read s rnd offset sz v s' log)
    from after_read.hyps(2) have "s' = fst (snd (ops_read asc rnd s offset sz))"
      by simp
    with after_read.IH show ?case
      by (simp add: key_inv_class(2) [OF assms(1)])
  next
    case (after_write s offset data sz s' log)
    from after_write.hyps(2) have "s' = fst (ops_write asc s offset data sz)"
      by simp
    with after_write.IH show ?case
      by (simp add: key_inv_class(3) [OF assms(1)])
  qed
  then show ?thesis by (auto simp: key_inv_def)
qed

theorem prot_key_values_witness:
  "regs (fst (aspeed_ast2400_scu_write sample_header
      (dc_reset (aspeed_2400_scu_class sample_header) (zeroed 0x1688A8A8)) 0x00 0x7 4)) PROT_KEY
    \<in> {0, 1, 0x1688A8A8}"
proof -
  let ?asc = "aspeed_2400_scu_class sample_header"
  let ?s = "dc_reset ?asc (zeroed 0x1688A8A8)"
  have "scu_reachable ?asc (zeroed 0x1688A8A8)"
    by (rule scu_reachable.constructed) (simp add: zeroed_def)
  then have "scu_reachable ?asc ?s"
    by (rule scu_reachable.after_reset)
  moreover have "ops_write ?asc ?s 0x00 0x7 4 =
      (fst (aspeed_ast2400_scu_write sample_header ?s 0x00 0x7 4),
       snd (aspeed_ast2400_scu_write sample_header ?s 0x00 0x7 4))"
    by (simp add: aspeed_2400_scu_class_def)
  ultimately have reach: "scu_reachable ?asc
      (fst (aspeed_ast2400_scu_write sample_header ?s 0x00 0x7 4))"
    by (rule scu_reachable.after_write)
  have cls: "?asc \<in> {aspeed_2400_scu_class sample_header,
      aspeed_2500_scu_class sample_header, aspeed_2600_scu_class sample_header}"
    by simp
  have key: "hw_prot_key (fst (aspeed_ast2400_scu_write sample_header ?s 0x00 0x7 4))
      = 0x1688A8A8"
    by (simp add: aspeed_ast2400_scu_write_def aspeed_2400_scu_class_def
        aspeed_scu_reset_props zeroed_def Let_def)
  from prot_key_values [OF cls reach] key show ?thesis
    by simp
qed

end
